theory Spec2Isabelle
  imports Main "HOL-Library.Word"
begin

section \<open>Vector load/store execution record (VecLdStInfo.hpp)\<close>

text \<open>
  The header declares two structs: \<open>VecLdStElem\<close>, one memory access of one lane of a
  vector load/store, and \<open>VecLdStInfo\<close>, the per-instruction record holding the
  operation-level fields and a \<open>std::vector<VecLdStElem>\<close>. The C++ types are modelled
  by width: \<open>uint64_t\<close> is a 64-bit word, \<open>unsigned\<close> a 32-bit word. The vector is
  a list in append order. Member functions that mutate the object take the record and
  return the new one.
\<close>

type_synonym uint64 = "64 word"
type_synonym unsigned = "32 word"

subsection \<open>Data\<close>

text \<open>Fields of \<open>struct VecLdStElem\<close>, in declaration order (\<open>va_\<close> ... \<open>skip_\<close>).\<close>

record VecLdStElem =
  va :: uint64
  pa :: uint64
  pa2 :: uint64
  data :: uint64
  ix :: unsigned
  field :: unsigned
  skip :: bool

text \<open>The default constructor: every member takes its default member initialiser.\<close>

definition VecLdStElem_default :: VecLdStElem where
  "VecLdStElem_default =
     \<lparr>va = 0, pa = 0, pa2 = 0, data = 0, ix = 0, field = 0, skip = False\<rparr>"

text \<open>
  The seven-argument constructor
  \<open>VecLdStElem(va, pa, pa2, data, ix, skipped, field = 0)\<close>; the argument order is
  the source's (the skip flag comes before the field).
\<close>

definition VecLdStElem_ctor ::
  "uint64 \<Rightarrow> uint64 \<Rightarrow> uint64 \<Rightarrow> uint64 \<Rightarrow> unsigned \<Rightarrow> bool \<Rightarrow> unsigned \<Rightarrow> VecLdStElem" where
  "VecLdStElem_ctor v p p2 d i skipped f =
     \<lparr>va = v, pa = p, pa2 = p2, data = d, ix = i, field = f, skip = skipped\<rparr>"

text \<open>
  Data members of \<open>struct VecLdStInfo\<close>, in declaration order. The member
  \<open>fields_\<close> is named \<open>fields_count\<close> here.
\<close>

record VecLdStInfo =
  elemCount :: unsigned
  elemSize :: unsigned
  vec :: unsigned
  ixVec :: unsigned
  fields_count :: unsigned
  group :: unsigned
  ixGroup :: unsigned
  stride :: uint64
  isLoad :: bool
  isIndexed :: bool
  isSegmented :: bool
  isStrided :: bool
  elems :: "VecLdStElem list"

text \<open>A default-constructed \<open>VecLdStInfo\<close>: all members zero or false, no element.\<close>

definition VecLdStInfo_default :: VecLdStInfo where
  "VecLdStInfo_default =
     \<lparr>elemCount = 0, elemSize = 0, vec = 0, ixVec = 0, fields_count = 0, group = 0,
      ixGroup = 0, stride = 0, isLoad = False, isIndexed = False, isSegmented = False,
      isStrided = False, elems = []\<rparr>"

subsection \<open>Outcomes of a member function\<close>

text \<open>
  Two member functions can leave the defined behaviour of the record:
  \<^item> \<open>removeLastElem\<close> starts with \<open>assert(not elems_.empty())\<close>. In a build where
    assertions are compiled in, a failed assertion aborts (\<open>AssertFailed\<close>). With
    \<open>NDEBUG\<close> the macro expands to nothing and the function goes on to
    \<open>elems_.resize(elems_.size() - 1)\<close>; on an empty vector the unsigned subtraction
    wraps to the largest \<open>size_t\<close>, which is above \<open>max_size()\<close>, and \<open>resize\<close>
    throws \<open>std::length_error\<close> (\<open>LengthError\<close>).
  \<^item> \<open>setLastElem\<close> has no check; \<open>std::vector::back()\<close> on an empty vector is
    undefined behaviour (\<open>Undefined\<close>).
\<close>

datatype build = Debug | Release

datatype 'a outcome = Done 'a | AssertFailed | LengthError | Undefined

text \<open>Sequencing of statements: the first failure ends the function.\<close>

fun bind_outcome :: "'a outcome \<Rightarrow> ('a \<Rightarrow> 'b outcome) \<Rightarrow> 'b outcome" where
  "bind_outcome (Done x) f = f x"
| "bind_outcome AssertFailed f = AssertFailed"
| "bind_outcome LengthError f = LengthError"
| "bind_outcome Undefined f = Undefined"

subsection \<open>Member functions\<close>

text \<open>\<open>bool empty() const { return elems_.empty(); }\<close>\<close>

definition empty_info :: "VecLdStInfo \<Rightarrow> bool" where
  "empty_info r = (elems r = [])"

text \<open>\<open>void clear()\<close>: \<open>elemSize_ = 0; elems_.clear();\<close>\<close>

definition clear :: "VecLdStInfo \<Rightarrow> VecLdStInfo" where
  "clear r = r\<lparr>elemSize := 0, elems := []\<rparr>"

text \<open>
  \<open>void init(elemCount, elemSize, vecReg, group, isLoad)\<close>: ten assignments, in the
  source's order. It assigns neither \<open>ixGroup_\<close>, nor \<open>stride_\<close>, nor \<open>elems_\<close>.
\<close>

definition init :: "unsigned \<Rightarrow> unsigned \<Rightarrow> unsigned \<Rightarrow> unsigned \<Rightarrow> bool \<Rightarrow> VecLdStInfo \<Rightarrow> VecLdStInfo" where
  "init elemCount' elemSize' vecReg group' isLoad' r =
     r\<lparr>elemCount := elemCount', elemSize := elemSize', vec := vecReg, group := group',
       isLoad := isLoad',
       isIndexed := False, isSegmented := False, isStrided := False,
       ixVec := 0, fields_count := 0\<rparr>"

text \<open>
  \<open>void initIndexed(elemCount, elemSize, vecReg, ixReg, group, ixGroup, isLoad)\<close>:
  \<open>init\<close>, then \<open>isIndexed_ = true; ixVec_ = ixReg; ixGroup_ = ixGroup;\<close>
\<close>

definition initIndexed ::
  "unsigned \<Rightarrow> unsigned \<Rightarrow> unsigned \<Rightarrow> unsigned \<Rightarrow> unsigned \<Rightarrow> unsigned \<Rightarrow> bool \<Rightarrow> VecLdStInfo \<Rightarrow> VecLdStInfo" where
  "initIndexed elemCount' elemSize' vecReg ixReg group' ixGroup' isLoad' r =
     (init elemCount' elemSize' vecReg group' isLoad' r)
       \<lparr>isIndexed := True, ixVec := ixReg, ixGroup := ixGroup'\<rparr>"

text \<open>
  \<open>void initStrided(elemCount, elemSize, vecReg, group, stride, isLoad)\<close>:
  \<open>init\<close>, then \<open>isStrided_ = true; stride_ = stride;\<close>
\<close>

definition initStrided ::
  "unsigned \<Rightarrow> unsigned \<Rightarrow> unsigned \<Rightarrow> unsigned \<Rightarrow> uint64 \<Rightarrow> bool \<Rightarrow> VecLdStInfo \<Rightarrow> VecLdStInfo" where
  "initStrided elemCount' elemSize' vecReg group' stride' isLoad' r =
     (init elemCount' elemSize' vecReg group' isLoad' r)
       \<lparr>isStrided := True, stride := stride'\<rparr>"

text \<open>\<open>void setFieldCount(fields, isSeg = false)\<close>\<close>

definition setFieldCount :: "unsigned \<Rightarrow> bool \<Rightarrow> VecLdStInfo \<Rightarrow> VecLdStInfo" where
  "setFieldCount fields' isSeg r = r\<lparr>fields_count := fields', isSegmented := isSeg\<rparr>"

text \<open>\<open>void addElem(const VecLdStElem& elem)\<close>: \<open>elems_.push_back(elem);\<close>\<close>

definition addElem :: "VecLdStElem \<Rightarrow> VecLdStInfo \<Rightarrow> VecLdStInfo" where
  "addElem elem r = r\<lparr>elems := elems r @ [elem]\<rparr>"

text \<open>
  One statement of the form \<open>elems_.back().m_ = v;\<close>. \<open>back()\<close> is the element at
  position \<open>size() - 1\<close>; on an empty vector the call is undefined behaviour, and the
  source does not test for it.
\<close>

definition assign_back :: "(VecLdStElem \<Rightarrow> VecLdStElem) \<Rightarrow> VecLdStInfo \<Rightarrow> VecLdStInfo outcome" where
  "assign_back f r =
     (if elems r = [] then Undefined
      else Done (r\<lparr>elems := (elems r)[length (elems r) - 1 :=
                                   f (elems r ! (length (elems r) - 1))]\<rparr>))"

text \<open>
  \<open>void setLastElem(pa, pa2, data)\<close>: three assignments through \<open>elems_.back()\<close>,
  with no assertion before them.
\<close>

definition setLastElem :: "uint64 \<Rightarrow> uint64 \<Rightarrow> uint64 \<Rightarrow> VecLdStInfo \<Rightarrow> VecLdStInfo outcome" where
  "setLastElem p p2 d r =
     bind_outcome (assign_back (\<lambda>e. e\<lparr>pa := p\<rparr>) r) (\<lambda>r1.
     bind_outcome (assign_back (\<lambda>e. e\<lparr>pa2 := p2\<rparr>) r1) (\<lambda>r2.
     assign_back (\<lambda>e. e\<lparr>data := d\<rparr>) r2))"

text \<open>
  \<open>void removeLastElem()\<close>: \<open>assert(not elems_.empty());\<close> then
  \<open>elems_.resize(elems_.size() - 1);\<close>. The three branches, in the order the
  statements run:
  \<^item> assertions compiled in and the vector empty: the assertion fails;
  \<^item> assertions compiled out and the vector empty: \<open>size() - 1\<close> wraps to
    \<open>2^64 - 1\<close> and \<open>resize\<close> throws \<open>std::length_error\<close>;
  \<^item> the vector non-empty (the assertion holds in either build): the new size
    \<open>size() - 1\<close> is below the old one and \<open>resize\<close> keeps the first
    \<open>size() - 1\<close> elements.
\<close>

definition removeLastElem :: "build \<Rightarrow> VecLdStInfo \<Rightarrow> VecLdStInfo outcome" where
  "removeLastElem b r =
     (if b = Debug \<and> elems r = [] then AssertFailed
      else if elems r = [] then LengthError
      else Done (r\<lparr>elems := take (length (elems r) - 1) (elems r)\<rparr>))"

text \<open>
  \<open>bool allSkipped() const\<close>: \<open>std::all_of\<close> over \<open>elems_\<close> with the predicate
  \<open>elem.skip_\<close>.
\<close>

definition allSkipped :: "VecLdStInfo \<Rightarrow> bool" where
  "allSkipped r = list_all skip (elems r)"

subsection \<open>Sequences of calls\<close>

text \<open>\<open>addElem\<close> called once for each element of a list, first element first.\<close>

definition addElems :: "VecLdStElem list \<Rightarrow> VecLdStInfo \<Rightarrow> VecLdStInfo" where
  "addElems es r = foldl (\<lambda>r' e. addElem e r') r es"

text \<open>
  The calls a client can make on a record, and a run of such calls. A run ends at the
  first call that does not return normally.
\<close>

datatype call =
    Clear
  | Init unsigned unsigned unsigned unsigned bool
  | InitIndexed unsigned unsigned unsigned unsigned unsigned unsigned bool
  | InitStrided unsigned unsigned unsigned unsigned uint64 bool
  | SetFieldCount unsigned bool
  | AddElem VecLdStElem
  | SetLastElem uint64 uint64 uint64
  | RemoveLastElem

fun perform :: "build \<Rightarrow> call \<Rightarrow> VecLdStInfo \<Rightarrow> VecLdStInfo outcome" where
  "perform b Clear r = Done (clear r)"
| "perform b (Init n s v g l) r = Done (init n s v g l r)"
| "perform b (InitIndexed n s v iv g ig l) r = Done (initIndexed n s v iv g ig l r)"
| "perform b (InitStrided n s v g st l) r = Done (initStrided n s v g st l r)"
| "perform b (SetFieldCount f sg) r = Done (setFieldCount f sg r)"
| "perform b (AddElem e) r = Done (addElem e r)"
| "perform b (SetLastElem p p2 d) r = setLastElem p p2 d r"
| "perform b RemoveLastElem r = removeLastElem b r"

fun run :: "build \<Rightarrow> call list \<Rightarrow> VecLdStInfo \<Rightarrow> VecLdStInfo outcome" where
  "run b [] r = Done r"
| "run b (c # cs) r = bind_outcome (perform b c r) (run b cs)"

section \<open>Properties\<close>

subsection \<open>Helper facts\<close>

lemma elems_clear: "elems (clear r) = []"
  by (simp add: clear_def)

lemma elems_init: "elems (init n s v g l r) = elems r"
  by (simp add: init_def)

lemma elems_initIndexed: "elems (initIndexed n s v iv g ig l r) = elems r"
  by (simp add: initIndexed_def init_def)

lemma elems_initStrided: "elems (initStrided n s v g st l r) = elems r"
  by (simp add: initStrided_def init_def)

lemma elems_addElems: "elems (addElems es r) = elems r @ es"
  unfolding addElems_def
  by (induction es arbitrary: r) (simp_all add: addElem_def)

text \<open>What one assignment through \<open>back()\<close> does to a non-empty vector.\<close>

lemma assign_back_nonempty:
  "elems r \<noteq> [] \<Longrightarrow>
   assign_back f r = Done (r\<lparr>elems := butlast (elems r) @ [f (last (elems r))]\<rparr>)"
proof -
  assume ne: "elems r \<noteq> []"
  then obtain ys y where s: "elems r = ys @ [y]"
    by (metis append_butlast_last_id)
  show ?thesis
    by (simp add: assign_back_def s nth_append)
qed

lemma setLastElem_empty: "elems r = [] \<Longrightarrow> setLastElem p p2 d r = Undefined"
  by (simp add: setLastElem_def assign_back_def)

lemma setLastElem_nonempty:
  "elems r \<noteq> [] \<Longrightarrow>
   setLastElem p p2 d r =
     Done (r\<lparr>elems := butlast (elems r) @ [(last (elems r))\<lparr>pa := p, pa2 := p2, data := d\<rparr>]\<rparr>)"
  by (simp add: setLastElem_def assign_back_nonempty)

lemma removeLastElem_nonempty:
  "elems r \<noteq> [] \<Longrightarrow> removeLastElem b r = Done (r\<lparr>elems := butlast (elems r)\<rparr>)"
  by (simp add: removeLastElem_def butlast_conv_take)

lemma removeLastElem_empty:
  "elems r = [] \<Longrightarrow> removeLastElem b r = (case b of Debug \<Rightarrow> AssertFailed | Release \<Rightarrow> LengthError)"
  by (cases b) (simp_all add: removeLastElem_def)

text \<open>
  No call that returns normally makes both addressing-mode flags true, if they were not
  both true before; hence no run of calls does.
\<close>

lemma perform_mode_exclusive:
  assumes "perform b c r = Done r'" and "\<not> (isIndexed r \<and> isStrided r)"
  shows "\<not> (isIndexed r' \<and> isStrided r')"
proof (cases c)
  case (SetLastElem p p2 d)
  with assms show ?thesis
    by (cases "elems r = []") (auto simp: setLastElem_empty setLastElem_nonempty)
next
  case RemoveLastElem
  with assms show ?thesis
    by (cases "elems r = []")
      (auto simp: removeLastElem_empty removeLastElem_nonempty split: build.splits)
qed (use assms in \<open>auto simp: clear_def init_def initIndexed_def initStrided_def
      setFieldCount_def addElem_def\<close>)

lemma run_mode_exclusive:
  "run b cs r = Done r' \<Longrightarrow> \<not> (isIndexed r \<and> isStrided r) \<Longrightarrow>
   \<not> (isIndexed r' \<and> isStrided r')"
proof (induction cs arbitrary: r)
  case Nil
  then show ?case by simp
next
  case (Cons c cs)
  from Cons.prems(1) obtain r1
    where p: "perform b c r = Done r1" and q: "run b cs r1 = Done r'"
    by (cases "perform b c r") simp_all
  from perform_mode_exclusive [OF p Cons.prems(2)]
  have "\<not> (isIndexed r1 \<and> isStrided r1)" .
  with Cons.IH [OF q] show ?case by simp
qed

subsection \<open>patchLast and dropLast on an empty record\<close>

text \<open>
  C1. The claim: \<open>setLastElem\<close> on a record with no element fails as a checked
  precondition violation. The source has no check in \<open>setLastElem\<close>: on the
  default-constructed record and on any record after \<open>clear\<close>, the first statement
  reads \<open>elems_.back()\<close> of an empty vector, which is undefined behaviour and not an
  assertion failure. The sibling \<open>removeLastElem\<close> does have the assertion and fails
  it on the same record.
\<close>

theorem setLastElem_empty_unchecked:
  "setLastElem p p2 d VecLdStInfo_default = Undefined
   \<and> setLastElem p p2 d (clear r) = Undefined
   \<and> setLastElem p p2 d (clear r) \<noteq> AssertFailed
   \<and> removeLastElem Debug (clear r) = AssertFailed"
  by (simp add: setLastElem_empty removeLastElem_empty elems_clear VecLdStInfo_default_def)

text \<open>
  C2. \<open>removeLastElem\<close> on a freshly cleared record fails its assertion in a build with
  assertions; on any record with no element it fails the assertion there, and in no
  build does it return normally (so it is never a silent no-op). On every record with at
  least one element it returns normally, in every build.
\<close>

theorem removeLastElem_precondition:
  "removeLastElem Debug (clear r) = AssertFailed
   \<and> (elems r = [] \<longrightarrow> removeLastElem Debug r = AssertFailed)
   \<and> (elems r = [] \<longrightarrow> (\<forall>r'. removeLastElem b r \<noteq> Done r'))
   \<and> (elems r \<noteq> [] \<longrightarrow> (\<exists>r'. removeLastElem b r = Done r'))"
  by (cases b) (simp_all add: removeLastElem_empty removeLastElem_nonempty elems_clear)

theorem removeLastElem_precondition_witness:
  "elems VecLdStInfo_default = []
   \<and> removeLastElem Debug VecLdStInfo_default = AssertFailed
   \<and> (\<forall>r'. removeLastElem Release VecLdStInfo_default \<noteq> Done r')
   \<and> elems (addElem VecLdStElem_default VecLdStInfo_default) \<noteq> []
   \<and> (\<exists>r'. removeLastElem Debug (addElem VecLdStElem_default VecLdStInfo_default) = Done r')"
  using removeLastElem_precondition [where r = VecLdStInfo_default and b = Release]
    removeLastElem_precondition [where r = "addElem VecLdStElem_default VecLdStInfo_default" and b = Debug]
  by (simp add: VecLdStInfo_default_def addElem_def)

subsection \<open>Addressing-mode flags\<close>

text \<open>
  C3. \<open>init\<close> leaves \<open>isIndexed_\<close> and \<open>isStrided_\<close> both false;
  \<open>initIndexed\<close> leaves \<open>isIndexed_\<close> true and \<open>isStrided_\<close> false;
  \<open>initStrided\<close> leaves \<open>isStrided_\<close> true and \<open>isIndexed_\<close> false. Hence in
  every state reached from the default-constructed record by a run of member-function
  calls, at most one of the two flags is true.
\<close>

theorem addressing_mode_exclusive:
  "\<not> isIndexed (init n s v g l r) \<and> \<not> isStrided (init n s v g l r)
   \<and> isIndexed (initIndexed n s v iv g ig l r) \<and> \<not> isStrided (initIndexed n s v iv g ig l r)
   \<and> isStrided (initStrided n s v g st l r) \<and> \<not> isIndexed (initStrided n s v g st l r)
   \<and> (run b cs VecLdStInfo_default = Done r' \<longrightarrow> \<not> (isIndexed r' \<and> isStrided r'))"
proof -
  have "\<not> (isIndexed VecLdStInfo_default \<and> isStrided VecLdStInfo_default)"
    by (simp add: VecLdStInfo_default_def)
  then have "run b cs VecLdStInfo_default = Done r' \<longrightarrow> \<not> (isIndexed r' \<and> isStrided r')"
    using run_mode_exclusive by blast
  then show ?thesis
    by (simp add: init_def initIndexed_def initStrided_def)
qed

theorem addressing_mode_exclusive_witness:
  "run Debug [InitStrided 4 4 8 1 64 True, AddElem VecLdStElem_default,
              InitIndexed 4 4 8 16 1 2 False, SetLastElem 1 2 3, RemoveLastElem, Clear]
       VecLdStInfo_default
     = Done (clear (initIndexed 4 4 8 16 1 2 False (initStrided 4 4 8 1 64 True VecLdStInfo_default)))
   \<and> \<not> (isIndexed (clear (initIndexed 4 4 8 16 1 2 False
                          (initStrided 4 4 8 1 64 True VecLdStInfo_default)))
        \<and> isStrided (clear (initIndexed 4 4 8 16 1 2 False
                          (initStrided 4 4 8 1 64 True VecLdStInfo_default))))"
  using addressing_mode_exclusive [where b = Debug and
      cs = "[InitStrided 4 4 8 1 64 True, AddElem VecLdStElem_default,
             InitIndexed 4 4 8 16 1 2 False, SetLastElem 1 2 3, RemoveLastElem, Clear]" and
      r' = "clear (initIndexed 4 4 8 16 1 2 False (initStrided 4 4 8 1 64 True VecLdStInfo_default))"]
  by (simp add: setLastElem_def assign_back_def removeLastElem_def clear_def initIndexed_def
      initStrided_def init_def addElem_def VecLdStInfo_default_def VecLdStElem_default_def)

subsection \<open>patchLast\<close>

text \<open>
  C4. On a record with at least one element, \<open>setLastElem pa pa2 data\<close> returns
  normally; the last element then has the given primary physical address, secondary
  physical address and data; its virtual address, lane index, field index and skip flag
  are as before; the number of elements and every earlier element are as before; and
  every operation-level member is as before.
\<close>

theorem setLastElem_frame:
  assumes "elems r \<noteq> []"
  shows "\<exists>r'. setLastElem p p2 d r = Done r'
     \<and> pa (last (elems r')) = p \<and> pa2 (last (elems r')) = p2 \<and> data (last (elems r')) = d
     \<and> va (last (elems r')) = va (last (elems r))
     \<and> ix (last (elems r')) = ix (last (elems r))
     \<and> field (last (elems r')) = field (last (elems r))
     \<and> skip (last (elems r')) = skip (last (elems r))
     \<and> length (elems r') = length (elems r)
     \<and> butlast (elems r') = butlast (elems r)
     \<and> (\<forall>i. i < length (elems r) - 1 \<longrightarrow> elems r' ! i = elems r ! i)
     \<and> elemCount r' = elemCount r \<and> elemSize r' = elemSize r \<and> vec r' = vec r
     \<and> ixVec r' = ixVec r \<and> fields_count r' = fields_count r \<and> group r' = group r
     \<and> ixGroup r' = ixGroup r \<and> stride r' = stride r \<and> isLoad r' = isLoad r
     \<and> isIndexed r' = isIndexed r \<and> isSegmented r' = isSegmented r
     \<and> isStrided r' = isStrided r
     \<and> r' = r\<lparr>elems := butlast (elems r) @
                 [(last (elems r))\<lparr>pa := p, pa2 := p2, data := d\<rparr>]\<rparr>"
proof -
  let ?e = "(last (elems r))\<lparr>pa := p, pa2 := p2, data := d\<rparr>"
  let ?r = "r\<lparr>elems := butlast (elems r) @ [?e]\<rparr>"
  have run: "setLastElem p p2 d r = Done ?r"
    using assms by (rule setLastElem_nonempty)
  have len: "length (elems ?r) = length (elems r)"
    using assms by simp
  have nth: "\<forall>i. i < length (elems r) - 1 \<longrightarrow> elems ?r ! i = elems r ! i"
    by (simp add: nth_append nth_butlast)
  show ?thesis
    using run len nth by simp
qed

theorem setLastElem_frame_witness:
  "elems (addElems [VecLdStElem_ctor 1 2 3 4 0 True 0, VecLdStElem_ctor 16 0 0 0 1 False 2]
            (initIndexed 4 8 8 16 1 2 True VecLdStInfo_default)) \<noteq> []
   \<and> setLastElem 32 48 255
        (addElems [VecLdStElem_ctor 1 2 3 4 0 True 0, VecLdStElem_ctor 16 0 0 0 1 False 2]
            (initIndexed 4 8 8 16 1 2 True VecLdStInfo_default))
      = Done (addElems [VecLdStElem_ctor 1 2 3 4 0 True 0, VecLdStElem_ctor 16 32 48 255 1 False 2]
            (initIndexed 4 8 8 16 1 2 True VecLdStInfo_default))"
  using setLastElem_frame [where p = 32 and ?p2.0 = 48 and d = 255 and
      r = "addElems [VecLdStElem_ctor 1 2 3 4 0 True 0, VecLdStElem_ctor 16 0 0 0 1 False 2]
            (initIndexed 4 8 8 16 1 2 True VecLdStInfo_default)"]
  by (simp add: addElems_def addElem_def initIndexed_def init_def VecLdStInfo_default_def
      VecLdStElem_ctor_def)


subsection \<open>dropLast\<close>

text \<open>
  C5. On a record with at least one element, \<open>removeLastElem\<close> returns normally with
  one element fewer: the old sequence is the new one followed by the old last element,
  and every remaining element is at its old position. For every record and element,
  \<open>addElem\<close> followed by \<open>removeLastElem\<close> gives back the record, and so its
  element sequence.
\<close>

theorem removeLastElem_drops_last:
  "(elems r \<noteq> [] \<longrightarrow>
      (\<exists>r'. removeLastElem b r = Done r'
         \<and> Suc (length (elems r')) = length (elems r)
         \<and> elems r = elems r' @ [last (elems r)]
         \<and> (\<forall>i. i < length (elems r') \<longrightarrow> elems r' ! i = elems r ! i)
         \<and> r' = r\<lparr>elems := butlast (elems r)\<rparr>))
   \<and> removeLastElem b (addElem e r) = Done r
   \<and> (\<exists>r'. removeLastElem b (addElem e r) = Done r' \<and> elems r' = elems r)"
proof -
  have drop_last: "elems r \<noteq> [] \<longrightarrow>
      (\<exists>r'. removeLastElem b r = Done r'
         \<and> Suc (length (elems r')) = length (elems r)
         \<and> elems r = elems r' @ [last (elems r)]
         \<and> (\<forall>i. i < length (elems r') \<longrightarrow> elems r' ! i = elems r ! i)
         \<and> r' = r\<lparr>elems := butlast (elems r)\<rparr>)"
    by (simp add: removeLastElem_nonempty nth_butlast)
  have "elems (addElem e r) \<noteq> []"
    by (simp add: addElem_def)
  then have "removeLastElem b (addElem e r) = Done ((addElem e r)\<lparr>elems := butlast (elems (addElem e r))\<rparr>)"
    by (rule removeLastElem_nonempty)
  then have roundtrip: "removeLastElem b (addElem e r) = Done r"
    by (simp add: addElem_def)
  from drop_last roundtrip show ?thesis by simp
qed

theorem removeLastElem_drops_last_witness:
  "elems (addElems [VecLdStElem_ctor 1 2 3 4 0 True 0, VecLdStElem_ctor 16 0 0 0 1 False 2]
            (init 4 8 8 1 True VecLdStInfo_default)) \<noteq> []
   \<and> removeLastElem Debug
        (addElems [VecLdStElem_ctor 1 2 3 4 0 True 0, VecLdStElem_ctor 16 0 0 0 1 False 2]
            (init 4 8 8 1 True VecLdStInfo_default))
      = Done (addElems [VecLdStElem_ctor 1 2 3 4 0 True 0] (init 4 8 8 1 True VecLdStInfo_default))"
  using removeLastElem_drops_last [where b = Debug and e = VecLdStElem_default and
      r = "addElems [VecLdStElem_ctor 1 2 3 4 0 True 0, VecLdStElem_ctor 16 0 0 0 1 False 2]
            (init 4 8 8 1 True VecLdStInfo_default)"]
  by (simp add: addElems_def addElem_def init_def VecLdStInfo_default_def VecLdStElem_ctor_def)

subsection \<open>allInactive\<close>

text \<open>
  C6. \<open>allSkipped\<close> is true exactly when every element of the sequence has its skip
  flag set. It is true on a record with no element (the default-constructed one, and any
  record after \<open>clear\<close>); after appending an element whose skip flag is false, alone
  or among others, it is false; after appending only elements whose skip flag is true
  to a record with no element, it is true.
\<close>

theorem allSkipped_iff:
  "(allSkipped r \<longleftrightarrow> (\<forall>e \<in> set (elems r). skip e))
   \<and> (elems r = [] \<longrightarrow> allSkipped r)
   \<and> allSkipped VecLdStInfo_default \<and> allSkipped (clear r)
   \<and> (\<not> skip e \<longrightarrow> \<not> allSkipped (addElem e r))
   \<and> ((\<exists>e \<in> set es. \<not> skip e) \<longrightarrow> \<not> allSkipped (addElems es r))
   \<and> (elems r = [] \<and> (\<forall>e \<in> set es. skip e) \<longrightarrow> allSkipped (addElems es r))"
  by (auto simp: allSkipped_def list_all_iff elems_addElems elems_clear addElem_def
      VecLdStInfo_default_def)

theorem allSkipped_iff_witness:
  "elems VecLdStInfo_default = []
   \<and> allSkipped VecLdStInfo_default
   \<and> \<not> skip (VecLdStElem_ctor 16 0 0 0 0 False 0)
   \<and> \<not> allSkipped (addElem (VecLdStElem_ctor 16 0 0 0 0 False 0) VecLdStInfo_default)
   \<and> skip (VecLdStElem_ctor 0 0 0 0 0 True 0) \<and> skip (VecLdStElem_ctor 8 0 0 0 1 True 0)
   \<and> allSkipped (addElems [VecLdStElem_ctor 0 0 0 0 0 True 0, VecLdStElem_ctor 8 0 0 0 1 True 0]
                   VecLdStInfo_default)"
  using allSkipped_iff [where r = VecLdStInfo_default and
      e = "VecLdStElem_ctor 16 0 0 0 0 False 0" and
      es = "[VecLdStElem_ctor 0 0 0 0 0 True 0, VecLdStElem_ctor 8 0 0 0 1 True 0]"]
  by (simp add: VecLdStInfo_default_def VecLdStElem_ctor_def)


subsection \<open>configure, then append\<close>

text \<open>
  C7, as stated, fails: \<open>init\<close> does not touch \<open>elems_\<close>. On a record that already
  holds one element, \<open>init\<close> followed by one \<open>addElem\<close> leaves two elements, and
  the first of them is the old element, not the appended one.
\<close>

theorem configure_keeps_elems_counterexample:
  "length (elems (addElems [VecLdStElem_ctor 8 8 8 5 0 False 0]
              (init 4 4 8 1 True (addElem VecLdStElem_default VecLdStInfo_default))))
     \<noteq> length [VecLdStElem_ctor 8 8 8 5 0 False 0]
   \<and> elems (addElems [VecLdStElem_ctor 8 8 8 5 0 False 0]
              (init 4 4 8 1 True (addElem VecLdStElem_default VecLdStInfo_default))) ! 0
     \<noteq> [VecLdStElem_ctor 8 8 8 5 0 False 0] ! 0"
  by (simp add: addElems_def addElem_def init_def VecLdStInfo_default_def
      VecLdStElem_default_def VecLdStElem_ctor_def)

text \<open>
  C7, amended. \<open>init\<close>, \<open>initIndexed\<close> and \<open>initStrided\<close> keep the element
  sequence, and \<open>addElem\<close> called on each element of a list puts the list after it, in
  order. So on a record with no element (in particular after \<open>clear\<close>), a configure
  call followed by N calls of \<open>addElem\<close> leaves exactly the N appended elements, each
  at the position of its call.
\<close>

theorem configure_then_append:
  "elems (addElems es (init n s v g l r)) = elems r @ es
   \<and> elems (addElems es (initIndexed n s v iv g ig l r)) = elems r @ es
   \<and> elems (addElems es (initStrided n s v g st l r)) = elems r @ es
   \<and> (elems r = [] \<longrightarrow>
        elems (addElems es (init n s v g l r)) = es
        \<and> elems (addElems es (initIndexed n s v iv g ig l r)) = es
        \<and> elems (addElems es (initStrided n s v g st l r)) = es
        \<and> length (elems (addElems es (init n s v g l r))) = length es
        \<and> (\<forall>i. i < length es \<longrightarrow> elems (addElems es (init n s v g l r)) ! i = es ! i))
   \<and> elems (addElems es (init n s v g l (clear r))) = es"
  by (simp add: elems_addElems elems_init elems_initIndexed elems_initStrided elems_clear)

theorem configure_then_append_witness:
  "elems VecLdStInfo_default = []
   \<and> elems (addElems [VecLdStElem_ctor 0 0 0 7 0 False 0, VecLdStElem_ctor 4 4 4 9 1 True 0]
              (init 4 4 8 1 True VecLdStInfo_default))
     = [VecLdStElem_ctor 0 0 0 7 0 False 0, VecLdStElem_ctor 4 4 4 9 1 True 0]
   \<and> length (elems (addElems [VecLdStElem_ctor 0 0 0 7 0 False 0, VecLdStElem_ctor 4 4 4 9 1 True 0]
              (init 4 4 8 1 True VecLdStInfo_default))) = 2"
  using configure_then_append [where r = VecLdStInfo_default and n = 4 and s = 4 and v = 8
      and g = 1 and l = True and
      es = "[VecLdStElem_ctor 0 0 0 7 0 False 0, VecLdStElem_ctor 4 4 4 9 1 True 0]"]
  by (simp add: VecLdStInfo_default_def)

subsection \<open>reset\<close>

text \<open>
  C8. For every record, \<open>clear\<close> sets the element size to zero and empties the element
  sequence, so that \<open>empty\<close> returns true afterwards, and changes no other member:
  active length, both registers, both group multipliers, stride, field count and the
  four flags keep their values. The result is the record with exactly these two members
  replaced.
\<close>

theorem clear_frame:
  "elemSize (clear r) = 0 \<and> elems (clear r) = [] \<and> empty_info (clear r)
   \<and> elemCount (clear r) = elemCount r \<and> vec (clear r) = vec r
   \<and> ixVec (clear r) = ixVec r \<and> group (clear r) = group r
   \<and> ixGroup (clear r) = ixGroup r \<and> stride (clear r) = stride r
   \<and> fields_count (clear r) = fields_count r \<and> isLoad (clear r) = isLoad r
   \<and> isIndexed (clear r) = isIndexed r \<and> isSegmented (clear r) = isSegmented r
   \<and> isStrided (clear r) = isStrided r
   \<and> clear r = r\<lparr>elemSize := 0, elems := []\<rparr>"
  by (simp add: clear_def empty_info_def)

subsection \<open>Members that plain configure leaves alone\<close>

text \<open>
  C9. \<open>init\<close> sets the index base register and the field count to 0 and the three
  mode flags to false, and leaves the index group multiplier and the stride as they
  were. After \<open>initIndexed\<close> with index group multiplier \<open>ig\<close>, a plain \<open>init\<close>
  gives a record whose \<open>isIndexed_\<close> is false and whose \<open>ixGroup_\<close> is still
  \<open>ig\<close>; after \<open>initStrided\<close> with stride \<open>st\<close>, a plain \<open>init\<close> gives a
  record whose \<open>isStrided_\<close> is false and whose \<open>stride_\<close> is still \<open>st\<close>.
\<close>

theorem init_keeps_stride_ixGroup:
  "ixVec (init n s v g l r) = 0 \<and> fields_count (init n s v g l r) = 0
   \<and> \<not> isIndexed (init n s v g l r) \<and> \<not> isSegmented (init n s v g l r)
   \<and> \<not> isStrided (init n s v g l r)
   \<and> ixGroup (init n s v g l r) = ixGroup r \<and> stride (init n s v g l r) = stride r
   \<and> ixVec (init n s v g l (initIndexed n' s' v' iv g' ig l' r)) = 0
   \<and> \<not> isIndexed (init n s v g l (initIndexed n' s' v' iv g' ig l' r))
   \<and> ixGroup (init n s v g l (initIndexed n' s' v' iv g' ig l' r)) = ig
   \<and> \<not> isStrided (init n s v g l (initStrided n' s' v' g' st l' r))
   \<and> stride (init n s v g l (initStrided n' s' v' g' st l' r)) = st"
  by (simp add: init_def initIndexed_def initStrided_def)

subsection \<open>allInactive and the active length\<close>

text \<open>
  C10. \<open>allSkipped\<close> does not depend on \<open>elemCount_\<close>: changing the active length,
  directly or through \<open>init\<close>, does not change its value, and two records whose
  elements carry the same skip flags give the same value. \<open>addElem\<close> stores the skip
  flag it is given. So an appended element whose lane index is at or above the active
  length and whose skip flag is false makes \<open>allSkipped\<close> false.
\<close>

theorem allSkipped_ignores_elemCount:
  "allSkipped (r\<lparr>elemCount := n\<rparr>) = allSkipped r
   \<and> allSkipped (addElems es (init n s v g l r)) = allSkipped (addElems es (init n' s v g l r))
   \<and> (map skip (elems r) = map skip (elems r') \<longrightarrow> allSkipped r = allSkipped r')
   \<and> skip (last (elems (addElem e r))) = skip e
   \<and> (elemCount r \<le> ix e \<and> \<not> skip e \<longrightarrow> \<not> allSkipped (addElem e r))"
proof -
  have dep: "map skip (elems r) = map skip (elems r') \<longrightarrow> allSkipped r = allSkipped r'"
  proof
    assume eq: "map skip (elems r) = map skip (elems r')"
    have "allSkipped r = list_all (\<lambda>b. b) (map skip (elems r))"
      by (simp add: allSkipped_def list_all_iff)
    also have "\<dots> = list_all (\<lambda>b. b) (map skip (elems r'))"
      by (simp only: eq)
    also have "\<dots> = allSkipped r'"
      by (simp add: allSkipped_def list_all_iff)
    finally show "allSkipped r = allSkipped r'" .
  qed
  have rest: "allSkipped (r\<lparr>elemCount := n\<rparr>) = allSkipped r
    \<and> allSkipped (addElems es (init n s v g l r)) = allSkipped (addElems es (init n' s v g l r))
    \<and> skip (last (elems (addElem e r))) = skip e
    \<and> (elemCount r \<le> ix e \<and> \<not> skip e \<longrightarrow> \<not> allSkipped (addElem e r))"
    by (simp add: allSkipped_def elems_addElems elems_init addElem_def)
  from dep rest show ?thesis by simp
qed

theorem allSkipped_ignores_elemCount_witness:
  "elemCount (init 4 4 8 1 True VecLdStInfo_default) \<le> ix (VecLdStElem_ctor 64 64 64 0 7 False 0)
   \<and> \<not> skip (VecLdStElem_ctor 64 64 64 0 7 False 0)
   \<and> \<not> allSkipped (addElem (VecLdStElem_ctor 64 64 64 0 7 False 0)
                      (init 4 4 8 1 True VecLdStInfo_default))"
  using allSkipped_ignores_elemCount [where e = "VecLdStElem_ctor 64 64 64 0 7 False 0" and
      r = "init 4 4 8 1 True VecLdStInfo_default" and r' = "init 4 4 8 1 True VecLdStInfo_default"]
  by (simp add: init_def VecLdStInfo_default_def VecLdStElem_ctor_def)

end
